theory Spec2Isabelle
  imports Complex_Main "HOL-Library.Product_Lexorder"
begin

section \<open>Data model of the vector store\<close>

text \<open>
  The retrieval core of LEARN-X is written in SQL: a table \<open>content_chunks\<close> with a
  nullable pgvector column, a row trigger, and the PL/pgSQL function
  \<open>search_content_chunks\<close> (migration \<open>vector\<close>, also quoted in the vector database
  guide). A table is modelled as the list of its rows in the order in which the executor
  delivers them; SQL leaves that order open, so every theorem below is stated for an
  arbitrary list. Identifiers (\<open>uuid\<close>, Prisma's \<open>TEXT\<close> ids) are strings, SQL \<open>float\<close>
  values are real numbers, and a nullable column is an \<open>option\<close>.
\<close>

type_synonym uuid = string
type_synonym vector = "real list"

record content_chunk =
  chunk_id :: uuid
  content :: string
  material_id :: uuid
  embedding :: "vector option"

text \<open>The row type of \<open>RETURNS TABLE (id, content, material_id, similarity)\<close>.\<close>

record search_row =
  row_id :: uuid
  row_content :: string
  row_material_id :: uuid
  similarity :: "real option"

section \<open>SQL expressions of \<open>search_content_chunks\<close>\<close>

text \<open>
  pgvector's operator \<open><=>\<close> (cosine distance) is not part of the repository; it is the
  parameter \<open>dst\<close>. Like every strict SQL operator it yields NULL on a NULL operand.
  \<open>cosine_distance\<close> is the textbook definition, used for concrete inputs.
\<close>

definition dot :: "vector \<Rightarrow> vector \<Rightarrow> real" where
  "dot a b = sum_list (map (\<lambda>(x, y). x * y) (zip a b))"

definition cosine_distance :: "vector \<Rightarrow> vector \<Rightarrow> real" where
  "cosine_distance a b = 1 - dot a b / (sqrt (dot a a) * sqrt (dot b b))"

definition distance_op :: "(vector \<Rightarrow> vector \<Rightarrow> real) \<Rightarrow> vector option \<Rightarrow> vector \<Rightarrow> real option" where
  "distance_op dst e q = map_option (\<lambda>v. dst v q) e"

text \<open>\<open>1 - (c.embedding <=> query_embedding)\<close>\<close>

definition similarity_expr :: "(vector \<Rightarrow> vector \<Rightarrow> real) \<Rightarrow> vector \<Rightarrow> content_chunk \<Rightarrow> real option" where
  "similarity_expr dst q c = map_option (\<lambda>d. 1 - d) (distance_op dst (embedding c) q)"

text \<open>
  \<open>WHERE c.embedding IS NOT NULL AND 1 - (c.embedding <=> query_embedding) > similarity_threshold\<close>:
  a row passes when the condition is true; a NULL comparison is not true.
\<close>

definition where_clause :: "(vector \<Rightarrow> vector \<Rightarrow> real) \<Rightarrow> vector \<Rightarrow> real \<Rightarrow> content_chunk \<Rightarrow> bool" where
  "where_clause dst q thr c =
     (embedding c \<noteq> None \<and>
      (case similarity_expr dst q c of None \<Rightarrow> False | Some s \<Rightarrow> s > thr))"

text \<open>
  \<open>ORDER BY c.embedding <=> query_embedding\<close>: ascending, and PostgreSQL puts NULL
  last in ascending order. The sort key is the pair (is NULL, value) under the
  lexicographic order, \<open>False < True\<close>.
\<close>

definition nulls_last :: "real option \<Rightarrow> bool \<times> real" where
  "nulls_last d = (case d of None \<Rightarrow> (True, 0) | Some x \<Rightarrow> (False, x))"

definition order_key :: "(vector \<Rightarrow> vector \<Rightarrow> real) \<Rightarrow> vector \<Rightarrow> content_chunk \<Rightarrow> bool \<times> real" where
  "order_key dst q c = nulls_last (distance_op dst (embedding c) q)"

text \<open>The select list \<open>c.id, c.content, c.material_id, 1 - (c.embedding <=> query_embedding)\<close>.\<close>

definition select_row :: "(vector \<Rightarrow> vector \<Rightarrow> real) \<Rightarrow> vector \<Rightarrow> content_chunk \<Rightarrow> search_row" where
  "select_row dst q c =
     \<lparr>row_id = chunk_id c, row_content = content c, row_material_id = material_id c,
      similarity = similarity_expr dst q c\<rparr>"

text \<open>
  The query of \<open>search_content_chunks(query_embedding, similarity_threshold, match_count)\<close>:
  scan, \<open>WHERE\<close>, \<open>ORDER BY\<close> on the single key, \<open>LIMIT match_count\<close>, projection.
  Rows with equal keys keep their delivery order (the statement names no second key).
  \<open>match_count\<close> is a natural number: PostgreSQL rejects a negative \<open>LIMIT\<close>.
\<close>

definition ranked_chunks :: "(vector \<Rightarrow> vector \<Rightarrow> real) \<Rightarrow> content_chunk list \<Rightarrow> vector \<Rightarrow> real \<Rightarrow> content_chunk list" where
  "ranked_chunks dst tbl q thr = sort_key (order_key dst q) (filter (where_clause dst q thr) tbl)"

definition search_content_chunks ::
  "(vector \<Rightarrow> vector \<Rightarrow> real) \<Rightarrow> content_chunk list \<Rightarrow> vector \<Rightarrow> real \<Rightarrow> nat \<Rightarrow> search_row list" where
  "search_content_chunks dst tbl q thr match_count =
     map (select_row dst q) (take match_count (ranked_chunks dst tbl q thr))"

section \<open>The trigger on \<open>content_chunks\<close>\<close>






section \<open>The course-scoped search of the schema document\<close>











section \<open>The relational schema\<close>

text \<open>
  The tables of the initial migration, with the columns that the row-level-security
  policies and the scheduler read. Every \<open>id\<close> is the primary key of its table.
  The schema document names the same columns in snake case (\<open>course_id\<close>, \<open>user_id\<close>);
  it calls \<open>questions\<close> and \<open>question_answers\<close> \<open>quiz_questions\<close> and \<open>quiz_responses\<close>.
\<close>

datatype UserRole = STUDENT | PROFESSOR | ADMIN

record user =
  user_id :: uuid
  user_role :: UserRole
  user_organizationId :: uuid

record course =
  course_id :: uuid
  course_organizationId :: uuid
  course_professorId :: uuid

record course_module =
  module_id :: uuid
  module_courseId :: uuid

record topic =
  topic_id :: uuid
  topic_moduleId :: uuid

record material =
  mat_id :: uuid
  mat_topicId :: uuid

record quiz =
  quiz_id :: uuid
  quiz_courseId :: uuid

record quiz_attempt =
  attempt_id :: uuid
  attempt_userId :: uuid
  attempt_quizId :: uuid

record ai_interaction =
  interaction_id :: uuid
  interaction_userId :: uuid

text \<open>
  \<open>quiz_questions\<close> and \<open>quiz_responses\<close> as the schema document declares them;
  \<open>is_correct\<close> and \<open>created_at\<close> are nullable there. A timestamp is a number of seconds.
\<close>

record quiz_question =
  question_id :: uuid
  question_quiz_id :: uuid
  question_text :: string
  question_type :: string
  question_options :: "string option"

record quiz_response =
  response_id :: uuid
  response_attempt_id :: uuid
  response_question_id :: uuid
  is_correct :: "bool option"
  created_at :: "real option"

record database =
  users :: "user list"
  courses :: "course list"
  modules :: "course_module list"
  topics :: "topic list"
  materials :: "material list"
  content_chunks :: "content_chunk list"
  quizzes :: "quiz list"
  quiz_questions :: "quiz_question list"
  quiz_attempts :: "quiz_attempt list"
  quiz_responses :: "quiz_response list"
  ai_interactions :: "ai_interaction list"




section \<open>Row-level-security policies\<close>












section \<open>The authorization rule of the specification\<close>










section \<open>The spaced-repetition query\<close>

text \<open>
  \<open>get_spaced_repetition_questions(p_user_id, p_course_id, p_count)\<close> of the schema
  document. A \<open>LEFT JOIN\<close> pairs a row with each matching row of the right-hand table,
  or once with an all-NULL row when none matches.
\<close>

definition left_join :: "'b list \<Rightarrow> 'b option list" where
  "left_join matches = (if matches = [] then [None] else map Some matches)"

text \<open>
  The joins of the common table expression \<open>user_question_history\<close>:
  \<open>quiz_questions qq JOIN quizzes q ON qq.quiz_id = q.id
   LEFT JOIN quiz_responses qr ON qq.id = qr.question_id
   LEFT JOIN quiz_attempts qa ON qr.quiz_attempt_id = qa.id AND qa.user_id = p_user_id
   WHERE q.course_id = p_course_id\<close>.
  The condition on \<open>p_user_id\<close> stands in the \<open>ON\<close> clause of the second outer join: a
  response of another user keeps its row, with the columns of \<open>qa\<close> NULL.
\<close>

definition history_join ::
  "database \<Rightarrow> uuid \<Rightarrow> uuid \<Rightarrow> (quiz_question \<times> quiz_response option \<times> quiz_attempt option) list" where
  "history_join db p_user_id p_course_id =
     [(qq, qr, qa).
        qq \<leftarrow> quiz_questions db,
        q \<leftarrow> quizzes db, question_quiz_id qq = quiz_id q,
        qr \<leftarrow> left_join [r \<leftarrow> quiz_responses db. question_id qq = response_question_id r],
        qa \<leftarrow> left_join [a \<leftarrow> quiz_attempts db.
                 (case qr of None \<Rightarrow> False | Some r \<Rightarrow> response_attempt_id r = attempt_id a) \<and>
                 attempt_userId a = p_user_id],
        quiz_courseId q = p_course_id]"

text \<open>
  The aggregates. \<open>MAX\<close> skips NULL and is NULL when nothing is left; \<open>AVG\<close> is NULL on
  no input. \<open>CASE WHEN qr.is_correct THEN 1.0 ELSE 0.0 END\<close> is \<open>0.0\<close> when \<open>is_correct\<close>
  is false or NULL, so also on the all-NULL row of a question without responses.
\<close>

definition sql_max :: "real option list \<Rightarrow> real option" where
  "sql_max vs = (case [v. Some v \<leftarrow> vs] of [] \<Rightarrow> None | x # xs \<Rightarrow> Some (fold max xs x))"

definition sql_avg :: "real list \<Rightarrow> real option" where
  "sql_avg vs = (if vs = [] then None else Some (sum_list vs / real (length vs)))"

definition response_time :: "quiz_response option \<Rightarrow> real option" where
  "response_time qr = Option.bind qr created_at"

definition correct_value :: "quiz_response option \<Rightarrow> real" where
  "correct_value qr = (if Option.bind qr is_correct = Some True then 1.0 else 0.0)"

record question_history =
  hist_question_id :: uuid
  last_seen :: "real option"
  performance_score :: "real option"

text \<open>\<open>SELECT qq.id, MAX(qr.created_at), AVG(CASE ...) ... GROUP BY qq.id\<close>\<close>

definition user_question_history :: "database \<Rightarrow> uuid \<Rightarrow> uuid \<Rightarrow> question_history list" where
  "user_question_history db p_user_id p_course_id =
     (let j = history_join db p_user_id p_course_id in
      [\<lparr>hist_question_id = k,
        last_seen = sql_max [response_time qr. (qq, qr, qa) \<leftarrow> j, question_id qq = k],
        performance_score = sql_avg [correct_value qr. (qq, qr, qa) \<leftarrow> j, question_id qq = k]\<rparr>.
       k \<leftarrow> remdups (map (\<lambda>(qq, qr, qa). question_id qq) j)])"

text \<open>
  The sort keys. \<open>GREATEST\<close> skips a NULL argument. \<open>now\<close> is the value of \<open>NOW()\<close> that
  the function stores on entry; \<open>EXTRACT(EPOCH FROM ...)\<close> is the difference in seconds.
  \<open>CASE WHEN uqh.last_seen IS NULL THEN 0 ELSE 1 END\<close> is the first key, ascending;
  \<open>CASE WHEN uqh.last_seen IS NULL THEN 0 ELSE EXTRACT(EPOCH FROM (current_date -
  uqh.last_seen)) / (86400 * POWER(2, GREATEST(uqh.performance_score * 5, 1))) END\<close> the
  second, descending.
\<close>

definition sql_greatest :: "real option \<Rightarrow> real \<Rightarrow> real" where
  "sql_greatest x y = (case x of None \<Rightarrow> y | Some v \<Rightarrow> max v y)"

definition priority_group :: "real option \<Rightarrow> nat" where
  "priority_group ls = (case ls of None \<Rightarrow> 0 | Some _ \<Rightarrow> 1)"

definition priority_score :: "real \<Rightarrow> real option \<Rightarrow> real option \<Rightarrow> real" where
  "priority_score now ls perf =
     (case ls of None \<Rightarrow> 0
      | Some t \<Rightarrow> (now - t) / (86400 * 2 powr sql_greatest (map_option (\<lambda>p. p * 5) perf) 1))"

definition days_since_last_seen :: "real \<Rightarrow> real \<Rightarrow> real" where
  "days_since_last_seen now t = (now - t) / 86400"

text \<open>
  The main query: \<open>quiz_questions qq JOIN quizzes q ON qq.quiz_id = q.id LEFT JOIN
  user_question_history uqh ON qq.id = uqh.question_id WHERE q.course_id = p_course_id
  ORDER BY ..., ... DESC LIMIT p_count\<close>. The descending key is sorted as its negation;
  rows with equal keys keep their delivery order. \<open>p_count\<close> is a natural number.
\<close>

definition scheduler_join ::
  "database \<Rightarrow> uuid \<Rightarrow> uuid \<Rightarrow> (quiz_question \<times> question_history option) list" where
  "scheduler_join db p_user_id p_course_id =
     [(qq, uqh).
        qq \<leftarrow> quiz_questions db,
        q \<leftarrow> quizzes db, question_quiz_id qq = quiz_id q,
        uqh \<leftarrow> left_join [h \<leftarrow> user_question_history db p_user_id p_course_id.
                  question_id qq = hist_question_id h],
        quiz_courseId q = p_course_id]"

definition scheduler_key :: "real \<Rightarrow> quiz_question \<times> question_history option \<Rightarrow> nat \<times> real" where
  "scheduler_key now row =
     (case row of (qq, uqh) \<Rightarrow>
        (priority_group (Option.bind uqh last_seen),
         - priority_score now (Option.bind uqh last_seen) (Option.bind uqh performance_score)))"

record scheduled_question =
  out_question_id :: uuid
  out_question :: string
  out_question_type :: string
  out_options :: "string option"
  out_last_seen :: "real option"
  out_performance_score :: real

text \<open>The select list; \<open>COALESCE(uqh.performance_score, 0.5)\<close> is its last column.\<close>

definition scheduler_select :: "quiz_question \<times> question_history option \<Rightarrow> scheduled_question" where
  "scheduler_select row =
     (case row of (qq, uqh) \<Rightarrow>
        \<lparr>out_question_id = question_id qq, out_question = question_text qq,
         out_question_type = question_type qq, out_options = question_options qq,
         out_last_seen = Option.bind uqh last_seen,
         out_performance_score =
           (case Option.bind uqh performance_score of None \<Rightarrow> 0.5 | Some p \<Rightarrow> p)\<rparr>)"

definition get_spaced_repetition_questions ::
  "database \<Rightarrow> real \<Rightarrow> uuid \<Rightarrow> uuid \<Rightarrow> nat \<Rightarrow> scheduled_question list" where
  "get_spaced_repetition_questions db now p_user_id p_course_id p_count =
     map scheduler_select
       (take p_count (sort_key (scheduler_key now) (scheduler_join db p_user_id p_course_id)))"


text \<open>The rows of the history join without the columns of \<open>qa\<close>.\<close>

definition history_pairs :: "database \<Rightarrow> uuid \<Rightarrow> (quiz_question \<times> quiz_response option) list" where
  "history_pairs db p_course_id =
     [(qq, qr).
        qq \<leftarrow> quiz_questions db,
        q \<leftarrow> quizzes db, question_quiz_id qq = quiz_id q,
        qr \<leftarrow> left_join [r \<leftarrow> quiz_responses db. question_id qq = response_question_id r],
        quiz_courseId q = p_course_id]"

section \<open>The chunking engine\<close>

text \<open>
  Modelled from the spec: the code of \<open>ContentChunkingService\<close> (\<open>chunk_text\<close>,
  \<open>chunk_material\<close>) is not among the sources; the vector database guide only lists its
  methods. The definitions of this section follow section 4.2 of the specification.
  Where the specification leaves a choice open, the choice made is stated.
\<close>

datatype chunk_error = ValidationError

text \<open>
  Modelled from the spec: a \<open>ContentChunk\<close> draft, with its ordinal and its range of
  character offsets into the source text (the chunking code is missing).
\<close>

record chunk_draft =
  draft_material_id :: uuid
  ordinal :: nat
  start_offset :: nat
  end_offset :: nat
  draft_text :: string

text \<open>
  Modelled from the spec: the natural boundaries of the missing \<open>chunk_text\<close>, in the
  order of preference "paragraph boundaries, then sentence boundaries, then whitespace".
  A cut at offset \<open>e\<close> falls after a blank line, after a sentence mark followed by
  white space, or after a white-space character.
\<close>

definition is_space :: "char \<Rightarrow> bool" where
  "is_space c = (c = CHR '' '' \<or> c = CHR 0x0A \<or> c = CHR 0x09 \<or> c = CHR 0x0D)"

definition paragraph_boundary :: "string \<Rightarrow> nat \<Rightarrow> bool" where
  "paragraph_boundary doc e =
     (2 \<le> e \<and> e \<le> length doc \<and> doc ! (e - 2) = CHR 0x0A \<and> doc ! (e - 1) = CHR 0x0A)"

definition sentence_boundary :: "string \<Rightarrow> nat \<Rightarrow> bool" where
  "sentence_boundary doc e =
     (2 \<le> e \<and> e \<le> length doc \<and> doc ! (e - 2) \<in> set ''.!?'' \<and> is_space (doc ! (e - 1)))"

definition whitespace_boundary :: "string \<Rightarrow> nat \<Rightarrow> bool" where
  "whitespace_boundary doc e = (1 \<le> e \<and> e \<le> length doc \<and> is_space (doc ! (e - 1)))"

text \<open>
  Modelled from the spec: the ceiling \<open>target_size * 1.5\<close> and the choice of the cut of
  the missing \<open>chunk_text\<close>. The cut is the first boundary of the most preferred kind
  between \<open>target_size\<close> and the ceiling, counted from the start of the chunk; without
  one, a hard cut at \<open>target_size\<close>. No chunk is longer than the ceiling.
\<close>

definition ceiling_size :: "nat \<Rightarrow> nat" where
  "ceiling_size target_size = target_size * 3 div 2"

definition find_break :: "string \<Rightarrow> nat \<Rightarrow> nat \<Rightarrow> nat" where
  "find_break doc start target_size =
     (let lo = start + target_size;
          hi = min (length doc) (start + ceiling_size target_size);
          window = [lo ..< Suc hi]
      in case find (paragraph_boundary doc) window of Some e \<Rightarrow> e | None \<Rightarrow>
        (case find (sentence_boundary doc) window of Some e \<Rightarrow> e | None \<Rightarrow>
        (case find (whitespace_boundary doc) window of Some e \<Rightarrow> e | None \<Rightarrow> lo)))"

definition draft :: "uuid \<Rightarrow> string \<Rightarrow> nat \<Rightarrow> nat \<Rightarrow> nat \<Rightarrow> chunk_draft" where
  "draft m doc k s e =
     \<lparr>draft_material_id = m, ordinal = k, start_offset = s, end_offset = e,
      draft_text = take (e - s) (drop s doc)\<rparr>"

text \<open>
  Modelled from the spec: the loop of the missing \<open>chunk_text\<close>. A rest no longer than
  \<open>target_size\<close> is the last chunk; otherwise the chunk ends at the cut and the next one
  starts \<open>overlap\<close> characters before it, with the next ordinal.
\<close>

function chunk_from :: "uuid \<Rightarrow> string \<Rightarrow> nat \<Rightarrow> nat \<Rightarrow> nat \<Rightarrow> nat \<Rightarrow> chunk_draft list" where
  "chunk_from m doc target_size overlap start k =
     (if length doc - start \<le> target_size then [draft m doc k start (length doc)]
      else
        (let e = find_break doc start target_size in
         draft m doc k start e #
           (if e < length doc \<and> start < e - overlap
            then chunk_from m doc target_size overlap (e - overlap) (Suc k)
            else [])))"
  by pat_completeness auto
termination
  by (relation "measure (\<lambda>(m, doc, target_size, overlap, start, k). length doc - start)") auto

text \<open>
  Modelled from the spec: \<open>chunk(material_id, text, target_size, overlap)\<close>, whose code
  is missing. A zero \<open>target_size\<close> is a \<open>ValidationError\<close>, and so is (a choice) an
  overlap that is not smaller than \<open>target_size\<close>; empty or whitespace-only input yields
  the empty sequence; ordinals start at 0.
\<close>

definition chunk :: "uuid \<Rightarrow> string \<Rightarrow> nat \<Rightarrow> nat \<Rightarrow> chunk_error + chunk_draft list" where
  "chunk m doc target_size overlap =
     (if target_size = 0 \<or> target_size \<le> overlap then Inl ValidationError
      else if list_all is_space doc then Inr []
      else Inr (chunk_from m doc target_size overlap 0 0))"

text \<open>The boundaries of a draft: its ordinal and its range of offsets.\<close>

definition boundary :: "chunk_draft \<Rightarrow> nat \<times> nat \<times> nat" where
  "boundary d = (ordinal d, start_offset d, end_offset d)"

section \<open>Concrete rows\<close>

definition chunk_a :: content_chunk where
  "chunk_a = \<lparr>chunk_id = ''a'', content = ''x'', material_id = ''m1'', embedding = Some [1, 0]\<rparr>"

definition chunk_b :: content_chunk where
  "chunk_b = \<lparr>chunk_id = ''b'', content = ''y'', material_id = ''m2'', embedding = Some [0, 1]\<rparr>"

definition chunk_c :: content_chunk where
  "chunk_c = \<lparr>chunk_id = ''c'', content = ''w'', material_id = ''m1'', embedding = Some [1, 0]\<rparr>"

definition chunk_n :: content_chunk where
  "chunk_n = \<lparr>chunk_id = ''n'', content = ''z'', material_id = ''m1'', embedding = None\<rparr>"












section \<open>Properties of the search\<close>


lemma select_row_simps [simp]:
  "row_id (select_row dst q c) = chunk_id c"
  "row_material_id (select_row dst q c) = material_id c"
  "row_content (select_row dst q c) = content c"
  "similarity (select_row dst q c) = similarity_expr dst q c"
  by (simp_all add: select_row_def)

lemma ranked_chunks_set:
  "set (ranked_chunks dst tbl q thr) = {c \<in> set tbl. where_clause dst q thr c}"
  by (simp add: ranked_chunks_def)

lemma search_row_origin:
  assumes "r \<in> set (search_content_chunks dst tbl q thr n)"
  shows "\<exists>c \<in> set tbl. where_clause dst q thr c \<and> r = select_row dst q c"
proof -
  from assms obtain c where c: "c \<in> set (take n (ranked_chunks dst tbl q thr))"
    and r: "r = select_row dst q c"
    by (auto simp: search_content_chunks_def)
  from c have "c \<in> set (ranked_chunks dst tbl q thr)"
    by (rule in_set_takeD)
  with r show ?thesis
    by (auto simp: ranked_chunks_set)
qed

lemma cosine_distance_unit:
  "cosine_distance [1, 0] [1, 0] = 0" "cosine_distance [0, 1] [1, 0] = 1"
  "cosine_distance [1, 0] [0, 1] = 1" "cosine_distance [0, 1] [0, 1] = 0"
  by (simp_all add: cosine_distance_def dot_def)

lemmas search_eval =
  search_content_chunks_def ranked_chunks_def where_clause_def similarity_expr_def
  distance_op_def order_key_def nulls_last_def select_row_def
  chunk_a_def chunk_b_def chunk_c_def chunk_n_def cosine_distance_unit

subsection \<open>Rows without an embedding\<close>

text \<open>
  C3. Whatever the stored rows, the query vector, the threshold and the limit: every row
  that \<open>search_content_chunks\<close> returns is the projection of a stored chunk whose
  embedding is not NULL, and (ids being the primary key) the id of a chunk stored without
  an embedding is not among the returned ids.
\<close>

theorem null_embedding_never_returned:
  "(\<forall>r \<in> set (search_content_chunks dst tbl q thr n).
      \<exists>c \<in> set tbl. embedding c \<noteq> None \<and> r = select_row dst q c) \<and>
   (distinct (map chunk_id tbl) \<longrightarrow>
      (\<forall>c \<in> set tbl. embedding c = None \<longrightarrow>
         chunk_id c \<notin> row_id ` set (search_content_chunks dst tbl q thr n)))"
proof (intro conjI ballI impI)
  fix r assume "r \<in> set (search_content_chunks dst tbl q thr n)"
  from search_row_origin [OF this]
  show "\<exists>c \<in> set tbl. embedding c \<noteq> None \<and> r = select_row dst q c"
    by (auto simp: where_clause_def)
next
  fix c assume pk: "distinct (map chunk_id tbl)" and c: "c \<in> set tbl"
    and null: "embedding c = None"
  show "chunk_id c \<notin> row_id ` set (search_content_chunks dst tbl q thr n)"
  proof
    assume "chunk_id c \<in> row_id ` set (search_content_chunks dst tbl q thr n)"
    then obtain r where r: "r \<in> set (search_content_chunks dst tbl q thr n)"
      and id: "row_id r = chunk_id c"
      by auto
    from search_row_origin [OF r] obtain c' where c': "c' \<in> set tbl" "where_clause dst q thr c'"
      and r': "r = select_row dst q c'" by blast
    from id r' have "chunk_id c' = chunk_id c" by simp
    with pk c c'(1) have "c' = c" by (meson distinct_map inj_onD)
    with c'(2) null show False by (simp add: where_clause_def)
  qed
qed

theorem null_embedding_never_returned_witness:
  "distinct (map chunk_id [chunk_b, chunk_n, chunk_a]) \<and>
   chunk_n \<in> set [chunk_b, chunk_n, chunk_a] \<and> embedding chunk_n = None \<and>
   chunk_id chunk_n \<notin>
     row_id ` set (search_content_chunks cosine_distance [chunk_b, chunk_n, chunk_a] [1, 0] (-1) 5) \<and>
   search_content_chunks cosine_distance [chunk_b, chunk_n, chunk_a] [1, 0] (-1) 5 \<noteq> []"
  using null_embedding_never_returned
    [of cosine_distance "[chunk_b, chunk_n, chunk_a]" "[1, 0]" "-1" 5]
  by (simp add: search_eval)

subsection \<open>The threshold\<close>



subsection \<open>The course-scoped search\<close>






subsection \<open>Order of the results\<close>









subsection \<open>The trigger leaves the embedding alone\<close>




section \<open>Tenant isolation\<close>













section \<open>The policies and the authorization rule\<close>











section \<open>The scheduler\<close>


subsection \<open>The history that the query reads\<close>

text \<open>
  With unique attempt ids, the second outer join pairs every response row with exactly
  one row (the attempt, or NULLs), whoever \<open>p_user_id\<close> is; the aggregates read the
  columns of \<open>qr\<close> only. So the history, and with it the result, is the same for every
  user.
\<close>

lemma distinct_filter_eq_length: "distinct ys \<Longrightarrow> length (filter (\<lambda>b. k = b) ys) \<le> 1"
proof (induction ys)
  case Nil show ?case by simp
next
  case (Cons y ys)
  show ?case
  proof (cases "k = y")
    case True
    with Cons.prems have "y \<notin> set ys" by simp
    then have "filter (\<lambda>b. y = b) ys = []" by (auto simp: filter_empty_conv)
    with True show ?thesis by simp
  next
    case False
    with Cons show ?thesis by simp
  qed
qed

lemma filter_pk_length:
  assumes "distinct (map f xs)"
  shows "length (filter (\<lambda>a. k = f a \<and> P a) xs) \<le> 1"
proof -
  have "filter (\<lambda>a. k = f a \<and> P a) xs = filter P (filter (\<lambda>a. k = f a) xs)"
    by (simp add: conj_commute)
  also have "length \<dots> \<le> length (filter (\<lambda>a. k = f a) xs)"
    by (rule length_filter_le)
  also have "length (filter (\<lambda>a. k = f a) xs) = length (filter (\<lambda>b. k = b) (map f xs))"
    by (simp add: filter_map comp_def)
  also have "\<dots> \<le> 1"
    using assms by (rule distinct_filter_eq_length)
  finally show ?thesis .
qed

lemma left_join_single:
  "length matches \<le> 1 \<Longrightarrow> \<exists>x. left_join matches = [x]"
  by (cases matches) (auto simp: left_join_def)

lemma attempt_join_single:
  assumes "distinct (map attempt_id (quiz_attempts db))"
  shows "\<exists>x. left_join [a \<leftarrow> quiz_attempts db.
                 (case qr of None \<Rightarrow> False | Some r \<Rightarrow> response_attempt_id r = attempt_id a) \<and>
                 attempt_userId a = u] = [x]"
proof (cases qr)
  case None
  then show ?thesis by (simp add: left_join_def)
next
  case (Some r)
  have "length (filter (\<lambda>a. response_attempt_id r = attempt_id a \<and> attempt_userId a = u)
      (quiz_attempts db)) \<le> 1"
    using assms by (rule filter_pk_length)
  then have "\<exists>x. left_join (filter (\<lambda>a. response_attempt_id r = attempt_id a \<and> attempt_userId a = u)
      (quiz_attempts db)) = [x]"
    by (rule left_join_single)
  with Some show ?thesis by simp
qed

lemma history_join_pairs:
  assumes "distinct (map attempt_id (quiz_attempts db))"
  shows "map (\<lambda>(qq, qr, qa). (qq, qr)) (history_join db u c) = history_pairs db c"
proof -
  have inner: "concat (map (\<lambda>qa. ys)
         (left_join [a \<leftarrow> quiz_attempts db.
                 (case qr of None \<Rightarrow> False | Some r \<Rightarrow> response_attempt_id r = attempt_id a) \<and>
                 attempt_userId a = u])) = ys"
    for ys :: "(quiz_question \<times> quiz_response option) list" and qr
    using attempt_join_single [OF assms, of qr u] by auto
  show ?thesis
    unfolding history_join_def history_pairs_def
    by (simp add: map_concat comp_def inner if_distrib [of "map _"] cong: if_cong)
qed

lemma triple_comprehension:
  "[g qq qr. (qq, qr, qa) \<leftarrow> j, P qq] =
   [g qq qr. (qq, qr) \<leftarrow> map (\<lambda>(qq, qr, qa). (qq, qr)) j, P qq]"
  by (induction j) auto

lemma user_question_history_pairs:
  assumes "distinct (map attempt_id (quiz_attempts db))"
  shows "user_question_history db u c =
     [\<lparr>hist_question_id = k,
        last_seen = sql_max [response_time qr. (qq, qr) \<leftarrow> history_pairs db c, question_id qq = k],
        performance_score = sql_avg [correct_value qr. (qq, qr) \<leftarrow> history_pairs db c, question_id qq = k]\<rparr>.
       k \<leftarrow> remdups (map (\<lambda>(qq, qr). question_id qq) (history_pairs db c))]"
proof -
  have ids: "map (\<lambda>(qq, qr, qa). question_id qq) (history_join db u c) =
      map (\<lambda>(qq, qr). question_id qq) (history_pairs db c)"
    unfolding history_join_pairs [OF assms, of u c, symmetric]
    by (simp add: comp_def case_prod_unfold)
  show ?thesis
    unfolding user_question_history_def Let_def ids
      triple_comprehension [where g = "\<lambda>qq qr. response_time qr"]
      triple_comprehension [where g = "\<lambda>qq qr. correct_value qr"]
      history_join_pairs [OF assms]
    by (rule refl)
qed

lemma scheduler_ignores_user:
  assumes "distinct (map attempt_id (quiz_attempts db))"
  shows "get_spaced_repetition_questions db now u c n = get_spaced_repetition_questions db now v c n"
proof -
  have h: "user_question_history db u c = user_question_history db v c"
    by (simp only: user_question_history_pairs [OF assms])
  show ?thesis
    by (simp only: get_spaced_repetition_questions_def scheduler_join_def h)
qed

text \<open>
  What the order of the query does give: the questions whose \<open>last_seen\<close> is NULL, those
  that no user at all has answered, come before all others.
\<close>

lemma scheduler_groups_sorted:
  "sorted (map (\<lambda>r. priority_group (out_last_seen r))
     (get_spaced_repetition_questions db now u c n))"
proof -
  let ?xs = "sort_key (scheduler_key now) (scheduler_join db u c)"
  have "sorted (map (scheduler_key now) ?xs)" by simp
  then have "sorted_wrt (\<lambda>a b. scheduler_key now a \<le> scheduler_key now b) ?xs"
    by (simp add: sorted_map)
  then have "sorted_wrt (\<lambda>a b. priority_group (out_last_seen (scheduler_select a))
      \<le> priority_group (out_last_seen (scheduler_select b))) ?xs"
  proof (rule sorted_wrt_mono_rel [rotated])
    fix a b assume "scheduler_key now a \<le> scheduler_key now b"
    then show "priority_group (out_last_seen (scheduler_select a))
      \<le> priority_group (out_last_seen (scheduler_select b))"
      by (cases a; cases b) (auto simp: scheduler_key_def scheduler_select_def less_eq_prod_def)
  qed
  then have "sorted_wrt (\<lambda>a b. priority_group (out_last_seen (scheduler_select a))
      \<le> priority_group (out_last_seen (scheduler_select b))) (take n ?xs)"
    by (rule sorted_wrt_take)
  then show ?thesis
    by (simp add: get_spaced_repetition_questions_def sorted_map sorted_wrt_map)
qed



subsection \<open>The score\<close>

lemma score_eq:
  "priority_score now (Some t) (Some p) = days_since_last_seen now t / 2 powr max (p * 5) 1"
  by (simp add: priority_score_def sql_greatest_def days_since_last_seen_def)

lemma exponent_mono: "pa \<le> pb \<Longrightarrow> max (pa * 5) 1 \<le> max (pb * 5) (1::real)"
  by (auto simp: max_def)

lemma exponent_strict: "pa < pb \<Longrightarrow> 1/5 < pb \<Longrightarrow> max (pa * 5) 1 < max (pb * 5) (1::real)"
  by (auto simp: max_def)

text \<open>
  C7, as the code has it. For an answered question the score is the number of days since
  it was last seen, divided by \<open>2\<close> to the power \<open>max (performance * 5) 1\<close>. For equal
  last-seen times and \<open>performance_A < performance_B\<close>, the score of \<open>A\<close> is strictly
  greater when time has passed since the question was seen and \<open>performance_B\<close> is
  above \<open>1/5\<close>, where the floor \<open>GREATEST(..., 1)\<close> no longer holds the exponent; in
  general, with no time in the future, it is greater or equal.
\<close>

theorem priority_score_formula:
  "priority_score now (Some t) (Some p) = days_since_last_seen now t / 2 powr max (p * 5) 1 \<and>
   (t < now \<longrightarrow> pa < pb \<longrightarrow> 1/5 < pb \<longrightarrow>
      priority_score now (Some t) (Some pb) < priority_score now (Some t) (Some pa)) \<and>
   (t \<le> now \<longrightarrow> pa \<le> pb \<longrightarrow>
      priority_score now (Some t) (Some pb) \<le> priority_score now (Some t) (Some pa))"
proof (intro conjI impI)
  show "priority_score now (Some t) (Some p) = days_since_last_seen now t / 2 powr max (p * 5) 1"
    by (rule score_eq)
next
  assume d: "t < now" and p: "pa < pb" "1/5 < pb"
  from d have pos: "0 < days_since_last_seen now t"
    by (simp add: days_since_last_seen_def)
  have "(2::real) powr max (pa * 5) 1 < 2 powr max (pb * 5) 1"
    using exponent_strict [OF p] by simp
  moreover have "0 < (2::real) powr max (pa * 5) 1" by simp
  ultimately have "days_since_last_seen now t / 2 powr max (pb * 5) 1
      < days_since_last_seen now t / 2 powr max (pa * 5) 1"
    using pos by (simp add: divide_strict_left_mono)
  then show "priority_score now (Some t) (Some pb) < priority_score now (Some t) (Some pa)"
    by (simp only: score_eq)
next
  assume d: "t \<le> now" and p: "pa \<le> pb"
  from d have pos: "0 \<le> days_since_last_seen now t"
    by (simp add: days_since_last_seen_def)
  have "(2::real) powr max (pa * 5) 1 \<le> 2 powr max (pb * 5) 1"
    using exponent_mono [OF p] by simp
  moreover have "0 < (2::real) powr max (pa * 5) 1" by simp
  ultimately have "days_since_last_seen now t / 2 powr max (pb * 5) 1
      \<le> days_since_last_seen now t / 2 powr max (pa * 5) 1"
    using pos by (simp add: divide_left_mono)
  then show "priority_score now (Some t) (Some pb) \<le> priority_score now (Some t) (Some pa)"
    by (simp only: score_eq)
qed

theorem priority_score_formula_witness:
  "(0::real) < 864000 \<and> (0::real) < 1 \<and> (1/5::real) < 1 \<and>
   priority_score 864000 (Some 0) (Some 1) < priority_score 864000 (Some 0) (Some 0) \<and>
   priority_score 864000 (Some 0) (Some 0) = 5 \<and>
   priority_score 864000 (Some 0) (Some 1) = 5/16"
  using priority_score_formula [of 864000 0 0 0 1]
  by (simp add: priority_score_def sql_greatest_def)

text \<open>
  The claim as the specification states it fails on the plateau of the floor:
  performances \<open>0\<close> and \<open>1/10\<close>, both last seen ten days ago, have the same score.
\<close>

theorem priority_score_plateau_counterexample:
  "(0::real) < 1/10 \<and>
   priority_score 864000 (Some 0) (Some 0) = priority_score 864000 (Some 0) (Some (1/10))"
  by (simp add: priority_score_def sql_greatest_def)

section \<open>Chunking\<close>

declare chunk_from.simps [simp del]

lemma boundary_draft [simp]: "boundary (draft m doc k s e) = (k, s, e)"
  by (simp add: boundary_def draft_def)

lemma chunk_from_last:
  "length doc - start \<le> target_size \<Longrightarrow>
   chunk_from m doc target_size overlap start k = [draft m doc k start (length doc)]"
  by (simp add: chunk_from.simps [of m doc target_size overlap start k])

lemma chunk_from_step:
  assumes "\<not> length doc - start \<le> target_size" "e = find_break doc start target_size"
  shows "chunk_from m doc target_size overlap start k =
     draft m doc k start e #
       (if e < length doc \<and> start < e - overlap
        then chunk_from m doc target_size overlap (e - overlap) (Suc k) else [])"
  using assms by (simp add: chunk_from.simps [of m doc target_size overlap start k] Let_def)

lemma chunk_from_boundaries:
  "map boundary (chunk_from m doc target_size overlap start k) =
   map boundary (chunk_from m' doc target_size overlap start k)"
proof (induction m doc target_size overlap start k rule: chunk_from.induct)
  case (1 m doc target_size overlap start k)
  show ?case
  proof (cases "length doc - start \<le> target_size")
    case True
    then show ?thesis by (simp add: chunk_from_last)
  next
    case False
    define e where "e = find_break doc start target_size"
    note step = chunk_from_step [OF False e_def]
    show ?thesis
    proof (cases "e < length doc \<and> start < e - overlap")
      case True
      with False "1.IH" [of e]
      have "map boundary (chunk_from m doc target_size overlap (e - overlap) (Suc k)) =
        map boundary (chunk_from m' doc target_size overlap (e - overlap) (Suc k))"
        by (simp add: e_def)
      then show ?thesis
        using True by (simp add: step [of m] step [of m'])
    next
      case stop: False
      show ?thesis
        using stop by (auto simp: step [of m] step [of m'])
    qed
  qed
qed

lemma chunk_from_ordinals:
  "map ordinal (chunk_from m doc target_size overlap start k) =
   [k ..< k + length (chunk_from m doc target_size overlap start k)]"
proof (induction m doc target_size overlap start k rule: chunk_from.induct)
  case (1 m doc target_size overlap start k)
  show ?case
  proof (cases "length doc - start \<le> target_size")
    case True
    then show ?thesis by (simp add: chunk_from_last draft_def)
  next
    case False
    define e where "e = find_break doc start target_size"
    note step = chunk_from_step [OF False e_def]
    show ?thesis
    proof (cases "e < length doc \<and> start < e - overlap")
      case True
      define rest where "rest = chunk_from m doc target_size overlap (e - overlap) (Suc k)"
      from True False "1.IH" [of e]
      have ih: "map ordinal rest = [Suc k ..< Suc k + length rest]"
        by (simp add: e_def rest_def)
      have whole: "chunk_from m doc target_size overlap start k = draft m doc k start e # rest"
        using True by (simp add: step [of m] rest_def)
      have "[k ..< k + Suc (length rest)] = k # [Suc k ..< Suc k + length rest]"
        by (simp add: upt_conv_Cons del: upt_Suc)
      with ih show ?thesis
        by (simp add: whole draft_def del: upt_Suc)
    next
      case stop: False
      have "chunk_from m doc target_size overlap start k = [draft m doc k start e]"
        using stop by (auto simp: step [of m])
      then show ?thesis by (simp add: draft_def)
    qed
  qed
qed

text \<open>
  The edge cases of section 4.2: a text no longer than \<open>target_size\<close> is one chunk,
  a blank text none; and 52 characters without a natural boundary, cut at 10 with an
  overlap of 1, give six chunks, each starting one character before the previous end.
\<close>

lemma chunk_short_text:
  assumes "0 < target_size" "overlap < target_size" "\<not> list_all is_space doc"
    and "length doc \<le> target_size"
  shows "chunk m doc target_size overlap = Inr [draft m doc 0 0 (length doc)]"
  using assms by (simp add: chunk_def chunk_from_last)

lemma chunk_blank_text:
  assumes "0 < target_size" "overlap < target_size" "list_all is_space doc"
  shows "chunk m doc target_size overlap = Inr []"
  using assms by (simp add: chunk_def)

lemma chunk_hard_cuts:
  "map_sum id (map boundary) (chunk ''m'' (replicate 52 (CHR ''a'')) 10 1) =
     Inr [(0, 0, 10), (1, 9, 19), (2, 18, 28), (3, 27, 37), (4, 36, 46), (5, 45, 52)]"
  by code_simp

text \<open>
  C9, for the chunker as the specification describes it. The result of a run is a
  function of the text and the two parameters: two runs on the same text with the same
  \<open>target_size\<close> and \<open>overlap\<close>, whatever material they are made for, both fail
  validation or yield the same sequence of ordinals and offset ranges; and the ordinals
  of a run are \<open>0, 1, ..., n - 1\<close>.
\<close>

theorem chunk_boundaries_deterministic:
  "map_sum id (map boundary) (chunk m doc target_size overlap) =
   map_sum id (map boundary) (chunk m' doc target_size overlap) \<and>
   (\<forall>ds. chunk m doc target_size overlap = Inr ds \<longrightarrow> map ordinal ds = [0 ..< length ds])"
proof (intro conjI allI impI)
  show "map_sum id (map boundary) (chunk m doc target_size overlap) =
   map_sum id (map boundary) (chunk m' doc target_size overlap)"
    using chunk_from_boundaries [of m doc target_size overlap 0 0 m']
    by (simp add: chunk_def)
next
  fix ds assume "chunk m doc target_size overlap = Inr ds"
  then show "map ordinal ds = [0 ..< length ds]"
    using chunk_from_ordinals [of m doc target_size overlap 0 0]
    by (auto simp: chunk_def split: if_splits)
qed

theorem chunk_boundaries_deterministic_witness:
  "chunk ''m1'' ''ab. cd ef gh'' 4 1 =
     Inr [\<lparr>draft_material_id = ''m1'', ordinal = 0, start_offset = 0, end_offset = 4, draft_text = ''ab. ''\<rparr>,
          \<lparr>draft_material_id = ''m1'', ordinal = 1, start_offset = 3, end_offset = 7, draft_text = '' cd ''\<rparr>,
          \<lparr>draft_material_id = ''m1'', ordinal = 2, start_offset = 6, end_offset = 10, draft_text = '' ef ''\<rparr>,
          \<lparr>draft_material_id = ''m1'', ordinal = 3, start_offset = 9, end_offset = 12, draft_text = '' gh''\<rparr>] \<and>
   map_sum id (map boundary) (chunk ''m2'' ''ab. cd ef gh'' 4 1) =
     Inr [(0, 0, 4), (1, 3, 7), (2, 6, 10), (3, 9, 12)]"
proof -
  have 1: "chunk ''m1'' ''ab. cd ef gh'' 4 1 =
     Inr [\<lparr>draft_material_id = ''m1'', ordinal = 0, start_offset = 0, end_offset = 4, draft_text = ''ab. ''\<rparr>,
          \<lparr>draft_material_id = ''m1'', ordinal = 1, start_offset = 3, end_offset = 7, draft_text = '' cd ''\<rparr>,
          \<lparr>draft_material_id = ''m1'', ordinal = 2, start_offset = 6, end_offset = 10, draft_text = '' ef ''\<rparr>,
          \<lparr>draft_material_id = ''m1'', ordinal = 3, start_offset = 9, end_offset = 12, draft_text = '' gh''\<rparr>]"
    by code_simp
  have "map_sum id (map boundary) (chunk ''m1'' ''ab. cd ef gh'' 4 1) =
      map_sum id (map boundary) (chunk ''m2'' ''ab. cd ef gh'' 4 1)"
    using chunk_boundaries_deterministic [of "''m1''" "''ab. cd ef gh''" 4 1 "''m2''"]
    by (rule conjunct1)
  then have 2: "map_sum id (map boundary) (chunk ''m2'' ''ab. cd ef gh'' 4 1) =
     Inr [(0, 0, 4), (1, 3, 7), (2, 6, 10), (3, 9, 12)]"
    unfolding 1 by (simp add: boundary_def)
  show ?thesis by (rule conjI [OF 1 2])
qed

end
